theory Spec2Isabelle
  imports Main "HOL-Library.Sublist"
begin

section \<open>Python values, log records and exceptions\<close>

text \<open>
  The values \<open>response.json()\<close> can hand to the pipeline: \<open>None\<close>, booleans, integers,
  strings, lists and dictionaries. A dictionary is the list of its items; a lookup takes
  the first item with the key. JSON numbers with a fraction or an exponent (Python floats)
  are outside this model.
\<close>

datatype pyval =
    PyNone
  | PyBool bool
  | PyInt int
  | PyStr string
  | PyList "pyval list"
  | PyDict "(string \<times> pyval) list"

datatype level = ERROR | INFO

type_synonym entry = "level \<times> string"

text \<open>
  The exceptions that leave a sink: Python's own, and three of the storage layer: a
  parameter it cannot bind, a key it cannot turn into a rowid (datatype mismatch), and no
  rowid left.
\<close>

datatype error =
    TypeError
  | AttributeError
  | KeyError
  | ValueError
  | OverflowError
  | SqliteBindError
  | SqliteMismatch
  | SqliteFull

text \<open>
  The exceptions raised inside a fetch: \<open>asyncio.TimeoutError\<close>, and any other subclass of
  \<open>Exception\<close> that the HTTP client raises, with its text \<open>str(e)\<close>.
\<close>

datatype fetch_exception = TimeoutError | OtherException string

section \<open>Formatting\<close>

definition digit :: "nat \<Rightarrow> char" where
  "digit d = ''0123456789'' ! d"

function str_nat :: "nat \<Rightarrow> string" where
  "str_nat n = (if n < 10 then [digit n] else str_nat (n div 10) @ [digit (n mod 10)])"
  by pat_completeness auto
termination
  by (relation "measure (\<lambda>n. n)") auto

declare str_nat.simps [simp del]

definition str_int :: "int \<Rightarrow> string" where
  "str_int i = (if i < 0 then CHR ''-'' # str_nat (nat (- i)) else str_nat (nat i))"

text \<open>An identifier of the batch: an integer of the range, or one of the test strings.\<close>

datatype resource_id = IdInt int | IdStr string

fun format_id :: "resource_id \<Rightarrow> string" where
  "format_id (IdInt i) = str_int i"
| "format_id (IdStr s) = s"

section \<open>The fetcher\<close>

text \<open>
  What the remote end does with one request: after \<open>elapsed\<close> time units the exchange ends
  in a transport fault or in a reply with a status, the value of its \<open>Content-Type\<close>
  header when it has one, and a body that \<open>response.json()\<close> decodes or rejects.
  Interrupts of the process (cancellation, \<open>KeyboardInterrupt\<close>) are not part of an answer.
\<close>

datatype content = Decoded pyval | Undecodable string

datatype wire = Fault string | Reply int "string option" content

record answer =
  elapsed :: nat
  wire :: wire

type_synonym session = "string \<Rightarrow> answer"

definition timeout :: nat where
  "timeout = 5"

text \<open>
  The statements under \<open>try\<close> in \<open>fetch_post\<close>: the result is the returned value with the
  lines logged on the way, or the exception raised. An exchange still running when the
  timeout expires raises \<open>asyncio.TimeoutError\<close>.
\<close>

definition fetch_body :: "session \<Rightarrow> string
    \<Rightarrow> fetch_exception + (pyval \<times> entry list)" where
  "fetch_body session url =
     (let a = session url in
      if timeout < elapsed a then Inl TimeoutError
      else case wire a of
          Fault d \<Rightarrow> Inl (OtherException d)
        | Reply status ct bd \<Rightarrow>
            if status = 200 then
              (let content_type = (case ct of Some t \<Rightarrow> t | None \<Rightarrow> '''') in
               if sublist ''application/json'' content_type then
                 (case bd of Decoded j \<Rightarrow> Inr (j, []) | Undecodable d \<Rightarrow> Inl (OtherException d))
               else
                 Inr (PyNone,
                   [(ERROR, ''Expected JSON, but got '' @ content_type @ '' instead. ''
                       @ ''URL: '' @ url)]))
            else
              Inr (PyNone,
                [(ERROR, ''Exception while fetching | '' @ url @ '' | ''
                    @ ''Response status -> '' @ str_int status)]))"

text \<open>\<open>fetch_post\<close>: the body with its two handlers. Each handler logs and returns \<open>None\<close>.\<close>

definition fetch_post :: "session \<Rightarrow> string \<Rightarrow> resource_id \<Rightarrow> pyval \<times> entry list" where
  "fetch_post session base_url post_id =
     (let url = base_url @ format_id post_id in
      case fetch_body session url of
          Inr out \<Rightarrow> out
        | Inl TimeoutError \<Rightarrow>
            (PyNone,
              [(ERROR, ''Timeout error while fetching '' @ url @ '': ''
                  @ ''The request took too long to respond.'')])
        | Inl (OtherException e) \<Rightarrow>
            (PyNone,
              [(ERROR, ''Exception while fetching | '' @ url @ '' | Reason -> '' @ e)]))"

text \<open>The moment a fetch is over: when the exchange ends, or when the timeout cuts it.\<close>

definition finished_at :: "session \<Rightarrow> string \<Rightarrow> resource_id \<Rightarrow> nat" where
  "finished_at session base_url post_id =
     min (elapsed (session (base_url @ format_id post_id))) timeout"

section \<open>The orchestrator\<close>

text \<open>
  One task per identifier, all started together. \<open>asyncio.gather\<close> keeps a slot per task;
  a task that finishes stores its value in its own slot and its log lines reach the log at
  that moment. Tasks finish in the order of their finishing times (the earlier position
  first among equal times). The gathered list is read off the slots once every task has
  finished; a slot still empty then would mean a gathering that never ends.
\<close>

record task =
  at :: nat
  outcome :: pyval
  logged :: "entry list"

fun settle :: "task list \<Rightarrow> nat list \<Rightarrow> pyval option list \<times> entry list
    \<Rightarrow> pyval option list \<times> entry list" where
  "settle tasks [] st = st"
| "settle tasks (k # ks) (slots, lg) =
     settle tasks ks (slots[k := Some (outcome (tasks ! k))], lg @ logged (tasks ! k))"

definition completion_order :: "task list \<Rightarrow> nat list" where
  "completion_order tasks = sort_key (\<lambda>k. at (tasks ! k)) [0..<length tasks]"

definition gather :: "task list \<Rightarrow> (pyval list \<times> entry list) option" where
  "gather tasks =
     (case settle tasks (completion_order tasks) (replicate (length tasks) None, []) of
        (slots, lg) \<Rightarrow> map_option (\<lambda>results. (results, lg)) (those slots))"

text \<open>
  The network as the orchestrator sees it: \<open>net i\<close> answers the request of the task at
  position \<open>i\<close> of the batch.
\<close>

definition make_tasks :: "(nat \<Rightarrow> session) \<Rightarrow> string \<Rightarrow> resource_id list \<Rightarrow> task list" where
  "make_tasks net base_url post_ids =
     map (\<lambda>(i, post_id).
            (case fetch_post (net i) base_url post_id of
               (v, lg) \<Rightarrow> \<lparr>at = finished_at (net i) base_url post_id, outcome = v, logged = lg\<rparr>))
         (enumerate 0 post_ids)"

text \<open>The comprehension \<open>[result for result in results if result is not None]\<close>.\<close>

fun valid_results :: "pyval list \<Rightarrow> pyval list" where
  "valid_results [] = []"
| "valid_results (result # results) =
     (if result \<noteq> PyNone then result # valid_results results else valid_results results)"

definition summary :: "nat \<Rightarrow> nat \<Rightarrow> entry" where
  "summary fetched succeeded =
     (INFO, ''Fetched count: '' @ str_nat fetched @ '' | ''
          @ ''Successfully: '' @ str_nat succeeded @ '' | ''
          @ ''Failed: '' @ str_int (int fetched - int succeeded))"

definition fetch_all_posts :: "(nat \<Rightarrow> session) \<Rightarrow> string \<Rightarrow> resource_id list
    \<Rightarrow> (pyval list \<times> entry list) option" where
  "fetch_all_posts net base_url post_ids =
     (case gather (make_tasks net base_url post_ids) of
        None \<Rightarrow> None
      | Some (results, lg) \<Rightarrow>
          Some (valid_results results,
                lg @ [summary (length post_ids) (length (valid_results results))]))"

section \<open>Python operations on a payload\<close>

text \<open>The truth value of \<open>post\<close> in \<open>if post:\<close>.\<close>

fun truthy :: "pyval \<Rightarrow> bool" where
  "truthy PyNone = False"
| "truthy (PyBool b) = b"
| "truthy (PyInt i) = (i \<noteq> 0)"
| "truthy (PyStr s) = (s \<noteq> [])"
| "truthy (PyList xs) = (xs \<noteq> [])"
| "truthy (PyDict kvs) = (kvs \<noteq> [])"

text \<open>
  \<open>key in post\<close>: a key of a dictionary, a substring of a string, an element of a list;
  the other values are not containers and raise \<open>TypeError\<close>.
\<close>

fun py_in :: "string \<Rightarrow> pyval \<Rightarrow> error + bool" where
  "py_in key (PyDict kvs) = Inr (key \<in> set (map fst kvs))"
| "py_in key (PyStr s) = Inr (sublist key s)"
| "py_in key (PyList xs) = Inr (PyStr key \<in> set xs)"
| "py_in key _ = Inl TypeError"

text \<open>
  \<open>post[key]\<close> with a string key: the value of a dictionary (\<open>KeyError\<close> when the key is
  absent); every other value raises \<open>TypeError\<close>.
\<close>

fun subscript :: "pyval \<Rightarrow> string \<Rightarrow> error + pyval" where
  "subscript (PyDict kvs) key = (case map_of kvs key of Some v \<Rightarrow> Inr v | None \<Rightarrow> Inl KeyError)"
| "subscript _ key = Inl TypeError"

section \<open>The relational sink\<close>

definition required :: "string list" where
  "required = [''id'', ''userId'', ''title'', ''body'']"

text \<open>The inner loop of \<open>save_to_db\<close>: it stops at the first missing key.\<close>

fun all_keys_exist :: "string list \<Rightarrow> pyval \<Rightarrow> error + bool" where
  "all_keys_exist [] post = Inr True"
| "all_keys_exist (key # keys) post =
     (case py_in key post of
        Inl e \<Rightarrow> Inl e
      | Inr present \<Rightarrow> if \<not> present then Inr False else all_keys_exist keys post)"

text \<open>The outer loop: the posts appended to \<open>valid_posts\<close>, in order.\<close>

fun select_valid :: "pyval list \<Rightarrow> error + pyval list" where
  "select_valid [] = Inr []"
| "select_valid (post # posts) =
     (if truthy post then
        (case all_keys_exist required post of
           Inl e \<Rightarrow> Inl e
         | Inr ok \<Rightarrow>
            (case select_valid posts of
               Inl e \<Rightarrow> Inl e
             | Inr valid_posts \<Rightarrow> Inr (if ok then post # valid_posts else valid_posts)))
      else select_valid posts)"

text \<open>The tuple \<open>(post["id"], post["userId"], post["title"], post["body"])\<close>.\<close>

definition parameters :: "pyval \<Rightarrow> error + (pyval \<times> pyval \<times> pyval \<times> pyval)" where
  "parameters post =
     (case subscript post ''id'' of Inl e \<Rightarrow> Inl e | Inr i \<Rightarrow>
       (case subscript post ''userId'' of Inl e \<Rightarrow> Inl e | Inr u \<Rightarrow>
         (case subscript post ''title'' of Inl e \<Rightarrow> Inl e | Inr t \<Rightarrow>
           (case subscript post ''body'' of Inl e \<Rightarrow> Inl e | Inr b \<Rightarrow> Inr (i, u, t, b)))))"

fun parameter_list :: "pyval list \<Rightarrow> error + (pyval \<times> pyval \<times> pyval \<times> pyval) list" where
  "parameter_list [] = Inr []"
| "parameter_list (post # posts) =
     (case parameters post of Inl e \<Rightarrow> Inl e | Inr p \<Rightarrow>
       (case parameter_list posts of Inl e \<Rightarrow> Inl e | Inr ps \<Rightarrow> Inr (p # ps)))"

subsection \<open>The table and the storage engine\<close>

datatype sqlval = SNull | SInt int | SText string

text \<open>
  A row of table \<open>posts\<close>. The key column \<open>id INTEGER PRIMARY KEY\<close> is the rowid, always an
  integer. The other cells hold the value that was bound; the conversions that column
  affinity applies to a stored cell are not modelled.
\<close>

record row =
  rowid :: int
  user_id :: sqlval
  title :: sqlval
  body :: sqlval

definition max_rowid :: int where
  "max_rowid = 2 ^ 63 - 1"

text \<open>
  How the \<open>sqlite3\<close> module binds a Python value to a statement parameter: \<open>None\<close> is
  \<open>NULL\<close>, an integer that fits 64 bits (a boolean is one) is an \<open>INTEGER\<close>, a string is
  \<open>TEXT\<close>; an integer that does not fit raises \<open>OverflowError\<close>, and a list or a
  dictionary cannot be bound.
\<close>

fun bind_param :: "pyval \<Rightarrow> error + sqlval" where
  "bind_param PyNone = Inr SNull"
| "bind_param (PyBool b) = Inr (SInt (if b then 1 else 0))"
| "bind_param (PyInt i) =
     (if - max_rowid - 1 \<le> i \<and> i \<le> max_rowid then Inr (SInt i) else Inl OverflowError)"
| "bind_param (PyStr s) = Inr (SText s)"
| "bind_param (PyList xs) = Inl SqliteBindError"
| "bind_param (PyDict kvs) = Inl SqliteBindError"

text \<open>
  Two decisions belong to the storage engine and not to this program, so they are
  parameters: \<open>text_rowid\<close> is the integer that a \<open>TEXT\<close> value bound to the key column
  converts to, when it converts; \<open>random_rowid\<close> is the unused rowid the engine finds, if
  any, when the largest rowid is already taken.
\<close>

record engine =
  text_rowid :: "string \<Rightarrow> int option"
  random_rowid :: "int list \<Rightarrow> int option"

fun largest :: "int list \<Rightarrow> int" where
  "largest [] = 0"
| "largest (k # ks) = fold max ks k"

text \<open>
  The rowid of a row inserted with a \<open>NULL\<close> key: 1 in an empty table, else one more than
  the largest rowid, else an unused one picked by the engine.
\<close>

definition new_rowid :: "engine \<Rightarrow> int list \<Rightarrow> error + int" where
  "new_rowid eng ids =
     (if ids = [] then Inr 1
      else if largest ids < max_rowid then Inr (largest ids + 1)
      else (case random_rowid eng ids of
              None \<Rightarrow> Inl SqliteFull
            | Some k \<Rightarrow>
                if 0 < k \<and> k \<le> max_rowid \<and> k \<notin> set ids then Inr k else Inl SqliteFull))"

fun resolve_rowid :: "engine \<Rightarrow> int list \<Rightarrow> sqlval \<Rightarrow> error + int" where
  "resolve_rowid eng ids (SInt i) = Inr i"
| "resolve_rowid eng ids SNull = new_rowid eng ids"
| "resolve_rowid eng ids (SText s) =
     (case text_rowid eng s of Some i \<Rightarrow> Inr i | None \<Rightarrow> Inl SqliteMismatch)"

text \<open>
  \<open>INSERT OR REPLACE INTO posts (id, user_id, title, body) VALUES (?, ?, ?, ?)\<close> for one
  parameter tuple: bind the four values, find the rowid, delete the rows that hold it,
  add the new row.
\<close>

definition insert_or_replace :: "engine \<Rightarrow> row list \<Rightarrow> pyval \<times> pyval \<times> pyval \<times> pyval
    \<Rightarrow> error + row list" where
  "insert_or_replace eng rows p =
     (case p of (i, u, t, b) \<Rightarrow>
       (case bind_param i of Inl e \<Rightarrow> Inl e | Inr iv \<Rightarrow>
         (case bind_param u of Inl e \<Rightarrow> Inl e | Inr uv \<Rightarrow>
           (case bind_param t of Inl e \<Rightarrow> Inl e | Inr tv \<Rightarrow>
             (case bind_param b of Inl e \<Rightarrow> Inl e | Inr bv \<Rightarrow>
               (case resolve_rowid eng (map rowid rows) iv of Inl e \<Rightarrow> Inl e | Inr k \<Rightarrow>
                  Inr ([r \<leftarrow> rows. rowid r \<noteq> k]
                       @ [\<lparr>rowid = k, user_id = uv, title = tv, body = bv\<rparr>])))))))"

fun executemany :: "engine \<Rightarrow> row list \<Rightarrow> (pyval \<times> pyval \<times> pyval \<times> pyval) list
    \<Rightarrow> error + row list" where
  "executemany eng rows [] = Inr rows"
| "executemany eng rows (p # ps) =
     (case insert_or_replace eng rows p of
        Inl e \<Rightarrow> Inl e
      | Inr rows' \<Rightarrow> executemany eng rows' ps)"

section \<open>The state that outlives a run\<close>

text \<open>
  The committed rows of table \<open>posts\<close> (the module creates the table when it is loaded),
  the file \<open>posts.csv\<close> (absent, or its records as the csv writer received them, the
  header first) and the log.
\<close>

record world =
  posts_table :: "row list"
  posts_csv :: "pyval list list option"
  logs :: "entry list"

text \<open>
  \<open>save_to_db\<close>. The result is the exception that left the function, if any, and the
  state. Nothing is committed when an exception leaves before \<open>conn.commit()\<close>: the rows
  written so far belong to a transaction that is dropped with the connection. The commit
  of a batch that was written is taken to go through.
\<close>

definition save_to_db :: "engine \<Rightarrow> pyval list \<Rightarrow> world \<Rightarrow> error option \<times> world" where
  "save_to_db eng posts w =
     (case select_valid posts of
        Inl e \<Rightarrow> (Some e, w)
      | Inr valid_posts \<Rightarrow>
         (case parameter_list valid_posts of
            Inl e \<Rightarrow> (Some e, w)
          | Inr ps \<Rightarrow>
             (case executemany eng (posts_table w) ps of
                Inl e \<Rightarrow> (Some e, w)
              | Inr rows' \<Rightarrow>
                 (None, w\<lparr>posts_table := rows',
                           logs := logs w @ [(INFO, ''Data saved to database'')]\<rparr>))))"

section \<open>The tabular sink\<close>

definition fieldnames :: "string list" where
  "fieldnames = [''id'', ''userId'', ''title'', ''body'']"

definition restval :: pyval where
  "restval = PyStr ''''"

text \<open>
  \<open>DictWriter._dict_to_list\<close> with the default \<open>extrasaction = "raise"\<close>: a value without
  \<open>keys()\<close> raises \<open>AttributeError\<close>, a dictionary with a key outside the field names raises
  \<open>ValueError\<close>, and a field the dictionary lacks is written as \<open>restval\<close>.
\<close>

fun dict_to_list :: "pyval \<Rightarrow> error + pyval list" where
  "dict_to_list (PyDict kvs) =
     (let wrong_fields = [k \<leftarrow> map fst kvs. k \<notin> set fieldnames] in
      if wrong_fields \<noteq> [] then Inl ValueError
      else Inr (map (\<lambda>key. case map_of kvs key of Some v \<Rightarrow> v | None \<Rightarrow> restval) fieldnames))"
| "dict_to_list _ = Inl AttributeError"

text \<open>
  \<open>writerows\<close>: the rows are converted and written one by one, so the rows before a failing
  one are in the file.
\<close>

fun writerows :: "pyval list list \<Rightarrow> pyval list \<Rightarrow> error option \<times> pyval list list" where
  "writerows file [] = (None, file)"
| "writerows file (post # posts) =
     (case dict_to_list post of
        Inl e \<Rightarrow> (Some e, file)
      | Inr cells \<Rightarrow> writerows (file @ [cells]) posts)"

text \<open>
  \<open>save_to_csv\<close>: mode \<open>"w"\<close> empties the file, the header is written, then the rows. The
  \<open>with\<close> block closes the file whether or not an exception leaves it.
\<close>

definition save_to_csv :: "pyval list \<Rightarrow> world \<Rightarrow> error option \<times> world" where
  "save_to_csv posts w =
     (case writerows [map PyStr fieldnames] posts of
        (Some e, file) \<Rightarrow> (Some e, w\<lparr>posts_csv := Some file\<rparr>)
      | (None, file) \<Rightarrow>
          (None, w\<lparr>posts_csv := Some file, logs := logs w @ [(INFO, ''Data saved to CSV'')]\<rparr>))"

section \<open>The pipeline\<close>

text \<open>\<open>main\<close>; \<open>None\<close> stands for a run whose gathering never ends.\<close>

definition main :: "engine \<Rightarrow> (nat \<Rightarrow> session) \<Rightarrow> string \<Rightarrow> resource_id list \<Rightarrow> world
    \<Rightarrow> (error option \<times> world) option" where
  "main eng net base_url post_ids w =
     (case fetch_all_posts net base_url post_ids of
        None \<Rightarrow> None
      | Some (posts, lg) \<Rightarrow>
          (let w1 = w\<lparr>logs := logs w @ lg\<rparr> in
           if posts \<noteq> [] then
             (case save_to_db eng posts w1 of
                (Some e, w2) \<Rightarrow> Some (Some e, w2)
              | (None, w2) \<Rightarrow> Some (save_to_csv posts w2))
           else Some (None, w1)))"

section \<open>Scenarios\<close>

text \<open>A storage engine that converts no text key and finds no spare rowid.\<close>

definition plain_engine :: engine where
  "plain_engine = \<lparr>text_rowid = (\<lambda>s. None), random_rowid = (\<lambda>ids. None)\<rparr>"

definition fresh_world :: world where
  "fresh_world = \<lparr>posts_table = [], posts_csv = None, logs = []\<rparr>"

definition post :: "int \<Rightarrow> pyval" where
  "post i = PyDict [(''id'', PyInt i), (''userId'', PyInt 1),
                    (''title'', PyStr ''t''), (''body'', PyStr ''b'')]"

definition json_reply :: "nat \<Rightarrow> pyval \<Rightarrow> answer" where
  "json_reply t v = \<lparr>elapsed = t, wire = Reply 200 (Some ''application/json; charset=utf-8'') (Decoded v)\<rparr>"

definition status_reply :: "nat \<Rightarrow> int \<Rightarrow> answer" where
  "status_reply t st = \<lparr>elapsed = t, wire = Reply st (Some ''application/json'') (Decoded (PyDict []))\<rparr>"

text \<open>
  Scenario A of the specification: valid JSON for \<open>1\<close> after 3 time units, status 404 for
  everything else after 1, so that the second request of the batch \<open>[1, 2]\<close> ends first.
\<close>

definition scenario_A :: "nat \<Rightarrow> session" where
  "scenario_A i url = (if url = ''posts/1'' then json_reply 3 (post 1) else status_reply 1 404)"

text \<open>A remote end that knows no resource: status 404 for every request.\<close>

definition all_missing :: "nat \<Rightarrow> session" where
  "all_missing i url = status_reply 1 404"

text \<open>A remote end that answers every request with the given value as JSON.\<close>

definition always :: "pyval \<Rightarrow> nat \<Rightarrow> session" where
  "always v i url = json_reply 1 v"

text \<open>
  Remote ends for the failure kinds: a JSON-typed reply whose body does not decode, an HTML
  page (scenario B of the specification), a reply that comes after the timeout, and a host
  that cannot be reached.
\<close>

definition garbled :: "nat \<Rightarrow> session" where
  "garbled i url =
     \<lparr>elapsed = 1, wire = Reply 200 (Some ''application/json'') (Undecodable ''Expecting value'')\<rparr>"

definition scenario_B :: "nat \<Rightarrow> session" where
  "scenario_B i url =
     \<lparr>elapsed = 1, wire = Reply 200 (Some ''text/html'') (Undecodable ''Expecting value'')\<rparr>"

definition slow :: "nat \<Rightarrow> session" where
  "slow i url = json_reply 7 (post 1)"

definition unreachable :: "nat \<Rightarrow> session" where
  "unreachable i url = \<lparr>elapsed = 2, wire = Fault ''Cannot connect to host''\<rparr>"

text \<open>
  Payloads that leave the schema: one without a title (scenario C of the specification),
  one with only an \<open>id\<close> and a field the export does not know, a complete one with such a
  field, a complete one whose title is a list, and a complete one whose \<open>id\<close> is \<open>null\<close>.
\<close>

definition untitled :: pyval where
  "untitled = PyDict [(''id'', PyInt 7), (''userId'', PyInt 1), (''body'', PyStr ''b'')]"


definition annotated :: pyval where
  "annotated = PyDict [(''id'', PyInt 2), (''userId'', PyInt 1), (''title'', PyStr ''t''),
                       (''body'', PyStr ''b''), (''note'', PyStr ''n'')]"

definition unbindable :: pyval where
  "unbindable = PyDict [(''id'', PyInt 4), (''userId'', PyInt 1),
                        (''title'', PyList [PyStr ''a'']), (''body'', PyStr ''b'')]"



section \<open>Notions of the specification\<close>

text \<open>
  The value of the fetch built from each identifier of the batch, position by position.
\<close>

definition fetched :: "(nat \<Rightarrow> session) \<Rightarrow> string \<Rightarrow> resource_id list \<Rightarrow> pyval list" where
  "fetched net base_url post_ids =
     map (\<lambda>i. fst (fetch_post (net i) base_url (post_ids ! i))) [0..<length post_ids]"

text \<open>
  The specification's Aggregator, in its own words: an order-preserving filter that keeps
  the payloads of the \<open>Success\<close> outcomes. In the program an outcome is the value a fetch
  returned, and \<open>None\<close> is the failure.
\<close>

datatype outcome = Success pyval | Failure

fun extractSuccesses :: "outcome list \<Rightarrow> pyval list" where
  "extractSuccesses [] = []"
| "extractSuccesses (Success payload # outcomes) = payload # extractSuccesses outcomes"
| "extractSuccesses (Failure # outcomes) = extractSuccesses outcomes"

definition outcome_of :: "pyval \<Rightarrow> outcome" where
  "outcome_of result = (if result = PyNone then Failure else Success result)"

text \<open>
  A payload the relational sink accepts: it is truthy and the loop finds the four keys.
\<close>

definition complete :: "pyval \<Rightarrow> bool" where
  "complete p = (truthy p \<and> all_keys_exist required p = Inr True)"

text \<open>
  The rowid that an \<open>id\<close> value names in the table: the integer it binds to, or the integer
  the engine converts its text to. \<open>None\<close> names no rowid: it asks for a new one.
\<close>

definition names :: "engine \<Rightarrow> pyval \<Rightarrow> int \<Rightarrow> bool" where
  "names eng v k =
     (case bind_param v of
        Inr (SInt i) \<Rightarrow> i = k
      | Inr (SText s) \<Rightarrow> text_rowid eng s = Some k
      | _ \<Rightarrow> False)"

text \<open>The export and the table a run leaves behind, and the exception it ended with.\<close>

definition export_after :: "(error option \<times> world) option \<Rightarrow> pyval list list option" where
  "export_after r = (case r of Some (e, w) \<Rightarrow> posts_csv w | None \<Rightarrow> None)"

definition table_after :: "(error option \<times> world) option \<Rightarrow> row list" where
  "table_after r = (case r of Some (e, w) \<Rightarrow> posts_table w | None \<Rightarrow> [])"

definition raised :: "(error option \<times> world) option \<Rightarrow> error option" where
  "raised r = (case r of Some (e, w) \<Rightarrow> e | None \<Rightarrow> None)"

text \<open>The state after the run of scenario A on a new installation.\<close>

definition after_scenario_A :: world where
  "after_scenario_A =
     \<lparr>posts_table = [\<lparr>rowid = 1, user_id = SInt 1, title = SText ''t'', body = SText ''b''\<rparr>],
      posts_csv = Some [[PyStr ''id'', PyStr ''userId'', PyStr ''title'', PyStr ''body''],
                        [PyInt 1, PyInt 1, PyStr ''t'', PyStr ''b'']],
      logs = [(ERROR, ''Exception while fetching | posts/2 | Response status -> 404''),
              (INFO, ''Fetched count: 2 | Successfully: 1 | Failed: 1''),
              (INFO, ''Data saved to database''),
              (INFO, ''Data saved to CSV'')]\<rparr>"

section \<open>The orchestrator and the aggregation\<close>

lemma settle_length: "length (fst (settle tasks ks (slots, lg))) = length slots"
  by (induction ks arbitrary: slots lg) auto

lemma settle_nth:
  "i < length slots \<Longrightarrow>
   fst (settle tasks ks (slots, lg)) ! i =
     (if i \<in> set ks then Some (outcome (tasks ! i)) else slots ! i)"
proof (induction ks arbitrary: slots lg)
  case Nil
  then show ?case by simp
next
  case (Cons k ks)
  then show ?case
    by (cases "i = k") (auto simp: nth_list_update)
qed

lemma settle_log:
  "snd (settle tasks ks (slots, lg)) = lg @ concat (map (\<lambda>k. logged (tasks ! k)) ks)"
  by (induction ks arbitrary: slots lg) auto

lemma those_map_Some: "those (map Some xs) = Some xs"
  by (induction xs) auto

lemma settle_all:
  assumes "set ks = {0..<length tasks}"
  shows "fst (settle tasks ks (replicate (length tasks) None, lg)) = map (\<lambda>t. Some (outcome t)) tasks"
proof (rule nth_equalityI)
  show "length (fst (settle tasks ks (replicate (length tasks) None, lg))) = length (map (\<lambda>t. Some (outcome t)) tasks)"
    by (simp add: settle_length)
next
  fix i assume "i < length (fst (settle tasks ks (replicate (length tasks) None, lg)))"
  then have i: "i < length tasks" by (simp add: settle_length)
  then have "i \<in> set ks" using assms by simp
  with i show "fst (settle tasks ks (replicate (length tasks) None, lg)) ! i = map (\<lambda>t. Some (outcome t)) tasks ! i"
    by (simp add: settle_nth)
qed

lemma those_settle_all:
  assumes "set ks = {0..<length tasks}"
  shows "those (fst (settle tasks ks (replicate (length tasks) None, lg))) = Some (map outcome tasks)"
  using settle_all [OF assms, of lg] those_map_Some [of "map outcome tasks"]
  by (simp add: comp_def)

lemma set_completion_order: "set (completion_order tasks) = {0..<length tasks}"
  by (simp add: completion_order_def)

lemma gather_eq:
  "gather tasks =
     Some (map outcome tasks, concat (map (\<lambda>k. logged (tasks ! k)) (completion_order tasks)))"
proof -
  obtain slots lg where s: "settle tasks (completion_order tasks) (replicate (length tasks) None, []) = (slots, lg)"
    by (cases "settle tasks (completion_order tasks) (replicate (length tasks) None, [])")
  have "those slots = Some (map outcome tasks)"
    using those_settle_all [OF set_completion_order, of tasks "[]"] s by simp
  moreover have "lg = concat (map (\<lambda>k. logged (tasks ! k)) (completion_order tasks))"
    using settle_log [of tasks "completion_order tasks" "replicate (length tasks) None" "[]"] s by simp
  ultimately show ?thesis by (simp add: gather_def s)
qed

lemma length_make_tasks: "length (make_tasks net base_url post_ids) = length post_ids"
  by (simp add: make_tasks_def)

lemma outcome_make_tasks:
  "map outcome (make_tasks net base_url post_ids) = fetched net base_url post_ids"
  unfolding fetched_def make_tasks_def
  by (rule nth_equalityI) (simp_all add: nth_enumerate_eq split_def)

lemma valid_results_filter: "valid_results results = filter (\<lambda>r. r \<noteq> PyNone) results"
  by (induction results) auto

lemma fetch_all_posts_eq:
  "fetch_all_posts net base_url post_ids =
     Some (valid_results (fetched net base_url post_ids),
           concat (map (\<lambda>k. logged (make_tasks net base_url post_ids ! k))
                       (completion_order (make_tasks net base_url post_ids)))
           @ [summary (length post_ids) (length (valid_results (fetched net base_url post_ids)))])"
  by (simp add: fetch_all_posts_def gather_eq outcome_make_tasks)

text \<open>
  Claim C1, as the program has it. The list gathered inside \<open>fetch_all_posts\<close> has one
  entry per identifier, the entry at position \<open>i\<close> is the value of the fetch built from
  the identifier at position \<open>i\<close>, and this holds for every order in which the tasks
  finish. The value \<open>fetch_all_posts\<close> returns is that list without its \<open>None\<close>
  entries, in the same order.
\<close>

theorem gathered_list_mirrors_batch:
  "map_option fst (gather (make_tasks net base_url post_ids)) = Some (fetched net base_url post_ids)
   \<and> length (fetched net base_url post_ids) = length post_ids
   \<and> (\<forall>i < length post_ids.
         fetched net base_url post_ids ! i = fst (fetch_post (net i) base_url (post_ids ! i)))
   \<and> (\<forall>order. set order = {0..<length post_ids} \<longrightarrow>
         those (fst (settle (make_tasks net base_url post_ids) order
                       (replicate (length post_ids) None, [])))
           = Some (fetched net base_url post_ids))
   \<and> map_option fst (fetch_all_posts net base_url post_ids)
        = Some (filter (\<lambda>r. r \<noteq> PyNone) (fetched net base_url post_ids))"
proof -
  have a: "map_option fst (gather (make_tasks net base_url post_ids)) = Some (fetched net base_url post_ids)"
    by (simp add: gather_eq outcome_make_tasks)
  have b: "length (fetched net base_url post_ids) = length post_ids"
    by (simp add: fetched_def)
  have c: "\<forall>i < length post_ids.
         fetched net base_url post_ids ! i = fst (fetch_post (net i) base_url (post_ids ! i))"
    by (simp add: fetched_def)
  have d: "\<forall>order. set order = {0..<length post_ids} \<longrightarrow>
         those (fst (settle (make_tasks net base_url post_ids) order
                       (replicate (length post_ids) None, [])))
           = Some (fetched net base_url post_ids)"
    using those_settle_all [of _ "make_tasks net base_url post_ids" "[]"]
    by (simp add: length_make_tasks outcome_make_tasks)
  have e: "map_option fst (fetch_all_posts net base_url post_ids)
        = Some (filter (\<lambda>r. r \<noteq> PyNone) (fetched net base_url post_ids))"
    by (simp add: fetch_all_posts_eq valid_results_filter)
  from a b c d e show ?thesis by blast
qed

theorem gathered_list_mirrors_batch_witness:
  "completion_order (make_tasks scenario_A ''posts/'' [IdInt 1, IdInt 2]) = [1, 0]
   \<and> set [1, 0] = {0..<length [IdInt 1, IdInt 2]}
   \<and> those (fst (settle (make_tasks scenario_A ''posts/'' [IdInt 1, IdInt 2]) [1, 0]
                       (replicate (length [IdInt 1, IdInt 2]) None, [])))
       = Some [post 1, PyNone]
   \<and> map_option fst (fetch_all_posts scenario_A ''posts/'' [IdInt 1, IdInt 2]) = Some [post 1]"
proof -
  have f: "fetched scenario_A ''posts/'' [IdInt 1, IdInt 2] = [post 1, PyNone]"
    by code_simp
  have g: "filter (\<lambda>r. r \<noteq> PyNone) [post 1, PyNone] = [post 1]"
    by code_simp
  have h: "set [1, 0] = {0..<length [IdInt 1, IdInt 2]}"
    by auto
  note t = gathered_list_mirrors_batch [of scenario_A "''posts/''" "[IdInt 1, IdInt 2]",
      unfolded f g]
  from t h have a: "those (fst (settle (make_tasks scenario_A ''posts/'' [IdInt 1, IdInt 2]) [1, 0]
                       (replicate (length [IdInt 1, IdInt 2]) None, [])))
       = Some [post 1, PyNone]"
    by blast
  from t have b: "map_option fst (fetch_all_posts scenario_A ''posts/'' [IdInt 1, IdInt 2])
      = Some [post 1]"
    by blast
  have c: "completion_order (make_tasks scenario_A ''posts/'' [IdInt 1, IdInt 2]) = [1, 0]"
    by code_simp
  from c h a b show ?thesis by blast
qed

text \<open>
  In scenario A the batch has two identifiers and the returned list has one element.
\<close>

theorem returned_list_shorter_than_batch:
  "map_option fst (fetch_all_posts scenario_A ''posts/'' [IdInt 1, IdInt 2]) = Some [post 1]
   \<and> length [post 1] \<noteq> length [IdInt 1, IdInt 2]"
  by code_simp

text \<open>
  Claim C8. The aggregation step of \<open>fetch_all_posts\<close> is a function of the gathered
  list alone: it returns the payloads of the successful outcomes, in their original
  order, and nothing else.
\<close>

theorem valid_results_order_preserving_filter:
  "valid_results results = extractSuccesses (map outcome_of results)
   \<and> valid_results results = filter (\<lambda>r. r \<noteq> PyNone) results
   \<and> subseq (valid_results results) results"
proof -
  have a: "valid_results results = extractSuccesses (map outcome_of results)"
    by (induction results) (auto simp: outcome_of_def)
  have b: "valid_results results = filter (\<lambda>r. r \<noteq> PyNone) results"
    by (rule valid_results_filter)
  have c: "subseq (valid_results results) results"
    unfolding b by (rule subseq_filter_left)
  from a b c show ?thesis by blast
qed

theorem valid_results_order_preserving_filter_witness:
  "valid_results [PyNone, post 3, PyNone, post 1] = [post 3, post 1]
   \<and> extractSuccesses (map outcome_of [PyNone, post 3, PyNone, post 1]) = [post 3, post 1]
   \<and> subseq [post 3, post 1] [PyNone, post 3, PyNone, post 1]"
proof -
  have v: "valid_results [PyNone, post 3, PyNone, post 1] = [post 3, post 1]"
    by code_simp
  note t = valid_results_order_preserving_filter [of "[PyNone, post 3, PyNone, post 1]",
      unfolded v]
  from t have a: "[post 3, post 1] = extractSuccesses (map outcome_of [PyNone, post 3, PyNone, post 1])"
    by blast
  from t have b: "subseq [post 3, post 1] [PyNone, post 3, PyNone, post 1]"
    by blast
  from v a b show ?thesis by simp
qed

section \<open>The fetcher's outcomes\<close>

text \<open>
  Claim C5, as the program has it. A reply within the timeout with status 200, a content
  type containing \<open>application/json\<close> and a body that decodes returns the decoded value
  and logs nothing; a body that does not decode is handled like a transport fault; status
  200 with another content type, any other status, a reply later than the timeout of 5 and
  a transport fault each return \<open>None\<close> and log one error line that names the reason.
  Every exception raised under \<open>try\<close> ends in \<open>None\<close> and one log line, and a value
  other than \<open>None\<close> comes only from a decoded body.
\<close>

theorem fetch_post_outcomes:
  assumes "session (base_url @ format_id post_id) = \<lparr>elapsed = t, wire = wr\<rparr>"
  shows
   "(t \<le> timeout \<and> wr = Reply 200 ct (Decoded j)
       \<and> sublist ''application/json'' (case ct of Some c \<Rightarrow> c | None \<Rightarrow> '''')
     \<longrightarrow> fetch_post session base_url post_id = (j, []))
  \<and> (t \<le> timeout \<and> wr = Reply 200 ct (Undecodable d)
       \<and> sublist ''application/json'' (case ct of Some c \<Rightarrow> c | None \<Rightarrow> '''')
     \<longrightarrow> fetch_post session base_url post_id =
          (PyNone, [(ERROR, ''Exception while fetching | '' @ base_url @ format_id post_id
                              @ '' | Reason -> '' @ d)]))
  \<and> (t \<le> timeout \<and> wr = Reply 200 ct bd
       \<and> \<not> sublist ''application/json'' (case ct of Some c \<Rightarrow> c | None \<Rightarrow> '''')
     \<longrightarrow> fetch_post session base_url post_id =
          (PyNone, [(ERROR, ''Expected JSON, but got '' @ (case ct of Some c \<Rightarrow> c | None \<Rightarrow> '''')
                              @ '' instead. URL: '' @ base_url @ format_id post_id)]))
  \<and> (t \<le> timeout \<and> wr = Reply status ct bd \<and> status \<noteq> 200
     \<longrightarrow> fetch_post session base_url post_id =
          (PyNone, [(ERROR, ''Exception while fetching | '' @ base_url @ format_id post_id
                              @ '' | Response status -> '' @ str_int status)]))
  \<and> (timeout < t
     \<longrightarrow> fetch_post session base_url post_id =
          (PyNone, [(ERROR, ''Timeout error while fetching '' @ base_url @ format_id post_id
                              @ '': The request took too long to respond.'')]))
  \<and> (t \<le> timeout \<and> wr = Fault d
     \<longrightarrow> fetch_post session base_url post_id =
          (PyNone, [(ERROR, ''Exception while fetching | '' @ base_url @ format_id post_id
                              @ '' | Reason -> '' @ d)]))
  \<and> (\<forall>e. fetch_body session (base_url @ format_id post_id) = Inl e
     \<longrightarrow> fst (fetch_post session base_url post_id) = PyNone
         \<and> length (snd (fetch_post session base_url post_id)) = 1)
  \<and> (fst (fetch_post session base_url post_id) \<noteq> PyNone
     \<longrightarrow> t \<le> timeout \<and> snd (fetch_post session base_url post_id) = []
         \<and> (\<exists>c. wr = Reply 200 c (Decoded (fst (fetch_post session base_url post_id)))))
  \<and> timeout = 5"
proof -
  note defs = fetch_post_def fetch_body_def Let_def
  have 9: "timeout = 5"
    by (simp add: timeout_def)
  have 1: "t \<le> timeout \<and> wr = Reply 200 ct (Decoded j)
       \<and> sublist ''application/json'' (case ct of Some c \<Rightarrow> c | None \<Rightarrow> '''')
     \<longrightarrow> fetch_post session base_url post_id = (j, [])"
    using assms by (simp add: defs)
  have 2: "t \<le> timeout \<and> wr = Reply 200 ct (Undecodable d)
       \<and> sublist ''application/json'' (case ct of Some c \<Rightarrow> c | None \<Rightarrow> '''')
     \<longrightarrow> fetch_post session base_url post_id =
          (PyNone, [(ERROR, ''Exception while fetching | '' @ base_url @ format_id post_id
                              @ '' | Reason -> '' @ d)])"
    using assms by (simp add: defs)
  have 3: "t \<le> timeout \<and> wr = Reply 200 ct bd
       \<and> \<not> sublist ''application/json'' (case ct of Some c \<Rightarrow> c | None \<Rightarrow> '''')
     \<longrightarrow> fetch_post session base_url post_id =
          (PyNone, [(ERROR, ''Expected JSON, but got '' @ (case ct of Some c \<Rightarrow> c | None \<Rightarrow> '''')
                              @ '' instead. URL: '' @ base_url @ format_id post_id)])"
    using assms by (simp add: defs)
  have 4: "t \<le> timeout \<and> wr = Reply status ct bd \<and> status \<noteq> 200
     \<longrightarrow> fetch_post session base_url post_id =
          (PyNone, [(ERROR, ''Exception while fetching | '' @ base_url @ format_id post_id
                              @ '' | Response status -> '' @ str_int status)])"
    using assms by (simp add: defs)
  have 5: "timeout < t
     \<longrightarrow> fetch_post session base_url post_id =
          (PyNone, [(ERROR, ''Timeout error while fetching '' @ base_url @ format_id post_id
                              @ '': The request took too long to respond.'')])"
    using assms by (simp add: defs)
  have 6: "t \<le> timeout \<and> wr = Fault d
     \<longrightarrow> fetch_post session base_url post_id =
          (PyNone, [(ERROR, ''Exception while fetching | '' @ base_url @ format_id post_id
                              @ '' | Reason -> '' @ d)])"
    using assms by (simp add: defs)
  have 7: "\<forall>e. fetch_body session (base_url @ format_id post_id) = Inl e
     \<longrightarrow> fst (fetch_post session base_url post_id) = PyNone
         \<and> length (snd (fetch_post session base_url post_id)) = 1"
    by (auto simp: fetch_post_def Let_def split: fetch_exception.splits)
  have 8: "fst (fetch_post session base_url post_id) \<noteq> PyNone
     \<longrightarrow> t \<le> timeout \<and> snd (fetch_post session base_url post_id) = []
         \<and> (\<exists>c. wr = Reply 200 c (Decoded (fst (fetch_post session base_url post_id))))"
    using assms by (auto simp: defs split: wire.splits content.splits if_splits)
  from 1 2 3 4 5 6 7 8 9 show ?thesis by blast
qed

theorem fetch_post_outcomes_witness:
  "fetch_post (scenario_A 0) ''posts/'' (IdInt 1) = (post 1, [])
   \<and> fetch_post (garbled 0) ''posts/'' (IdInt 1) =
        (PyNone, [(ERROR, ''Exception while fetching | posts/1 | Reason -> Expecting value'')])
   \<and> fetch_post (scenario_B 0) ''posts/'' (IdInt 5) =
        (PyNone, [(ERROR, ''Expected JSON, but got text/html instead. URL: posts/5'')])
   \<and> fetch_post (all_missing 0) ''posts/'' (IdInt 2) =
        (PyNone, [(ERROR, ''Exception while fetching | posts/2 | Response status -> 404'')])
   \<and> fetch_post (slow 0) ''posts/'' (IdInt 1) =
        (PyNone, [(ERROR, ''Timeout error while fetching posts/1: The request took too long to respond.'')])
   \<and> fetch_post (unreachable 0) [] (IdStr ''http://10.255.255.1'') =
        (PyNone, [(ERROR, ''Exception while fetching | http://10.255.255.1 | Reason -> Cannot connect to host'')])"
proof -
  have e1: "scenario_A 0 (''posts/'' @ format_id (IdInt 1)) =
      \<lparr>elapsed = 3, wire = Reply 200 (Some ''application/json; charset=utf-8'') (Decoded (post 1))\<rparr>"
    by code_simp
  have p1: "3 \<le> timeout
      \<and> Reply 200 (Some ''application/json; charset=utf-8'') (Decoded (post 1))
          = Reply 200 (Some ''application/json; charset=utf-8'') (Decoded (post 1))
      \<and> sublist ''application/json''
           (case Some ''application/json; charset=utf-8'' of Some c \<Rightarrow> c | None \<Rightarrow> [])"
    by code_simp
  from fetch_post_outcomes [where session = "scenario_A 0" and base_url = "''posts/''"
      and post_id = "IdInt 1" and ct = "Some ''application/json; charset=utf-8''" and j = "post 1", OF e1] p1
  have r1: "fetch_post (scenario_A 0) ''posts/'' (IdInt 1) = (post 1, [])"
    by blast
  have e2: "garbled 0 (''posts/'' @ format_id (IdInt 1)) =
      \<lparr>elapsed = 1, wire = Reply 200 (Some ''application/json'') (Undecodable ''Expecting value'')\<rparr>"
    by code_simp
  have p2: "1 \<le> timeout
      \<and> Reply 200 (Some ''application/json'') (Undecodable ''Expecting value'')
          = Reply 200 (Some ''application/json'') (Undecodable ''Expecting value'')
      \<and> sublist ''application/json''
           (case Some ''application/json'' of Some c \<Rightarrow> c | None \<Rightarrow> [])"
    by code_simp
  have u1: "''posts/'' @ format_id (IdInt 1) = ''posts/1''"
    by code_simp
  from fetch_post_outcomes [where session = "garbled 0" and base_url = "''posts/''"
      and post_id = "IdInt 1" and ct = "Some ''application/json''" and d = "''Expecting value''", OF e2] p2
  have "fetch_post (garbled 0) ''posts/'' (IdInt 1) =
        (PyNone, [(ERROR, ''Exception while fetching | '' @ ''posts/'' @ format_id (IdInt 1)
                              @ '' | Reason -> '' @ ''Expecting value'')])"
    by blast
  then have r2: "fetch_post (garbled 0) ''posts/'' (IdInt 1) =
        (PyNone, [(ERROR, ''Exception while fetching | posts/1 | Reason -> Expecting value'')])"
    using u1 by simp
  have e3: "scenario_B 0 (''posts/'' @ format_id (IdInt 5)) =
      \<lparr>elapsed = 1, wire = Reply 200 (Some ''text/html'') (Undecodable ''Expecting value'')\<rparr>"
    by code_simp
  have p3: "1 \<le> timeout
      \<and> Reply 200 (Some ''text/html'') (Undecodable ''Expecting value'')
          = Reply 200 (Some ''text/html'') (Undecodable ''Expecting value'')
      \<and> \<not> sublist ''application/json'' (case Some ''text/html'' of Some c \<Rightarrow> c | None \<Rightarrow> [])"
    by code_simp
  have u5: "''posts/'' @ format_id (IdInt 5) = ''posts/5''"
    by code_simp
  from fetch_post_outcomes [where session = "scenario_B 0" and base_url = "''posts/''"
      and post_id = "IdInt 5" and ct = "Some ''text/html''"
      and bd = "Undecodable ''Expecting value''", OF e3] p3
  have "fetch_post (scenario_B 0) ''posts/'' (IdInt 5) =
          (PyNone, [(ERROR, ''Expected JSON, but got '' @ (case Some ''text/html'' of Some c \<Rightarrow> c | None \<Rightarrow> [])
                              @ '' instead. URL: '' @ ''posts/'' @ format_id (IdInt 5))])"
    by blast
  then have r3: "fetch_post (scenario_B 0) ''posts/'' (IdInt 5) =
        (PyNone, [(ERROR, ''Expected JSON, but got text/html instead. URL: posts/5'')])"
    using u5 by simp
  have e4: "all_missing 0 (''posts/'' @ format_id (IdInt 2)) =
      \<lparr>elapsed = 1, wire = Reply 404 (Some ''application/json'') (Decoded (PyDict []))\<rparr>"
    by code_simp
  have p4: "1 \<le> timeout
      \<and> Reply 404 (Some ''application/json'') (Decoded (PyDict []))
          = Reply 404 (Some ''application/json'') (Decoded (PyDict []))
      \<and> (404::int) \<noteq> 200"
    by code_simp
  have u2: "''posts/'' @ format_id (IdInt 2) = ''posts/2''" "str_int 404 = ''404''"
    by code_simp+
  from fetch_post_outcomes [where session = "all_missing 0" and base_url = "''posts/''"
      and post_id = "IdInt 2" and ct = "Some ''application/json''"
      and bd = "Decoded (PyDict [])" and status = 404, OF e4] p4
  have "fetch_post (all_missing 0) ''posts/'' (IdInt 2) =
          (PyNone, [(ERROR, ''Exception while fetching | '' @ ''posts/'' @ format_id (IdInt 2)
                              @ '' | Response status -> '' @ str_int 404)])"
    by blast
  then have r4: "fetch_post (all_missing 0) ''posts/'' (IdInt 2) =
        (PyNone, [(ERROR, ''Exception while fetching | posts/2 | Response status -> 404'')])"
    using u2 by simp
  have e5: "slow 0 (''posts/'' @ format_id (IdInt 1)) =
      \<lparr>elapsed = 7, wire = Reply 200 (Some ''application/json; charset=utf-8'') (Decoded (post 1))\<rparr>"
    by code_simp
  have p5: "timeout < 7"
    by code_simp
  from fetch_post_outcomes [where session = "slow 0" and base_url = "''posts/''"
      and post_id = "IdInt 1", OF e5] p5
  have "fetch_post (slow 0) ''posts/'' (IdInt 1) =
          (PyNone, [(ERROR, ''Timeout error while fetching '' @ ''posts/'' @ format_id (IdInt 1)
                              @ '': The request took too long to respond.'')])"
    by blast
  then have r5: "fetch_post (slow 0) ''posts/'' (IdInt 1) =
        (PyNone, [(ERROR, ''Timeout error while fetching posts/1: The request took too long to respond.'')])"
    using u1 by simp
  have e6: "unreachable 0 ([] @ format_id (IdStr ''http://10.255.255.1'')) =
      \<lparr>elapsed = 2, wire = Fault ''Cannot connect to host''\<rparr>"
    by code_simp
  have p6: "2 \<le> timeout \<and> Fault ''Cannot connect to host'' = Fault ''Cannot connect to host''"
    by code_simp
  from fetch_post_outcomes [where session = "unreachable 0" and base_url = "[]"
      and post_id = "IdStr ''http://10.255.255.1''" and d = "''Cannot connect to host''", OF e6] p6
  have "fetch_post (unreachable 0) [] (IdStr ''http://10.255.255.1'') =
          (PyNone, [(ERROR, ''Exception while fetching | '' @ [] @ format_id (IdStr ''http://10.255.255.1'')
                              @ '' | Reason -> '' @ ''Cannot connect to host'')])"
    by blast
  then have r6: "fetch_post (unreachable 0) [] (IdStr ''http://10.255.255.1'') =
        (PyNone, [(ERROR, ''Exception while fetching | http://10.255.255.1 | Reason -> Cannot connect to host'')])"
    by simp
  from r1 r2 r3 r4 r5 r6 show ?thesis by blast
qed

text \<open>
  Status 200 with a JSON content type is not always a success: a body that does not decode
  is logged as an exception, and a body that decodes to \<open>null\<close> returns \<open>None\<close>, which
  the aggregation drops like a failure.
\<close>

theorem json_reply_without_success:
  "fetch_post (garbled 0) ''posts/'' (IdInt 1) =
     (PyNone, [(ERROR, ''Exception while fetching | posts/1 | Reason -> Expecting value'')])
   \<and> garbled 0 ''posts/1'' =
     \<lparr>elapsed = 1, wire = Reply 200 (Some ''application/json'') (Undecodable ''Expecting value'')\<rparr>
   \<and> fetch_post (always PyNone 0) ''posts/'' (IdInt 1) = (PyNone, [])
   \<and> always PyNone 0 ''posts/1'' =
     \<lparr>elapsed = 1, wire = Reply 200 (Some ''application/json; charset=utf-8'') (Decoded PyNone)\<rparr>
   \<and> valid_results [fst (fetch_post (always PyNone 0) ''posts/'' (IdInt 1))] = []"
  by code_simp

section \<open>The relational sink: accepted payloads and the table\<close>


lemma select_valid_filter:
  "select_valid posts = Inr valid \<Longrightarrow> valid = filter complete posts"
proof (induction posts arbitrary: valid)
  case Nil
  then show ?case by simp
next
  case (Cons p posts)
  then show ?case
    by (auto simp: complete_def split: if_splits sum.splits)
qed



lemma largest_ge: "k \<in> set ids \<Longrightarrow> k \<le> largest ids"
proof (cases ids)
  case Nil
  then show "k \<in> set ids \<Longrightarrow> k \<le> largest ids" by simp
next
  case (Cons a as)
  assume "k \<in> set ids"
  then have "k \<le> Max (set (a # as))" using Cons by (intro Max_ge) auto
  then show "k \<le> largest ids" using Cons by (simp only: largest.simps Max.set_eq_fold)
qed

lemma new_rowid_unused: "new_rowid eng ids = Inr k \<Longrightarrow> k \<notin> set ids"
proof -
  assume a: "new_rowid eng ids = Inr k"
  show "k \<notin> set ids"
  proof
    assume k: "k \<in> set ids"
    then have ne: "ids \<noteq> []" by auto
    from k have le: "k \<le> largest ids" by (rule largest_ge)
    from a ne k le show False
      by (auto simp: new_rowid_def split: if_splits option.splits)
  qed
qed

lemma resolve_rowid_names:
  assumes "bind_param v = Inr iv" "resolve_rowid eng ids iv = Inr k"
  shows "names eng v k \<or> (v = PyNone \<and> k \<notin> set ids)"
proof (cases iv)
  case SNull
  with assms have "v = PyNone" by (cases v) (auto split: if_splits)
  moreover from assms SNull have "k \<notin> set ids" by (simp add: new_rowid_unused)
  ultimately show ?thesis by simp
next
  case (SInt i)
  with assms show ?thesis by (simp add: names_def)
next
  case (SText s)
  with assms show ?thesis by (auto simp: names_def split: option.splits)
qed


lemma insert_or_replace_result:
  assumes "insert_or_replace eng rows (v, u, t, b) = Inr rows'"
  shows "\<exists>k uv tv bv. bind_param u = Inr uv \<and> bind_param t = Inr tv \<and> bind_param b = Inr bv
           \<and> (names eng v k \<or> (v = PyNone \<and> k \<notin> set (map rowid rows)))
           \<and> rows' = [r \<leftarrow> rows. rowid r \<noteq> k]
                       @ [\<lparr>rowid = k, user_id = uv, title = tv, body = bv\<rparr>]"
proof -
  from assms obtain iv uv tv bv k where
    b: "bind_param v = Inr iv" "bind_param u = Inr uv" "bind_param t = Inr tv" "bind_param b = Inr bv"
    and r: "resolve_rowid eng (map rowid rows) iv = Inr k"
    and e: "rows' = [r \<leftarrow> rows. rowid r \<noteq> k] @ [\<lparr>rowid = k, user_id = uv, title = tv, body = bv\<rparr>]"
    by (auto simp: insert_or_replace_def split: sum.splits)
  from resolve_rowid_names [OF b(1) r] b e show ?thesis by blast
qed


lemma insert_or_replace_frame:
  assumes "insert_or_replace eng rows (v, u, t, b) = Inr rows'"
    and "k \<in> set (map rowid rows)" "\<not> names eng v k"
  shows "[r \<leftarrow> rows'. rowid r = k] = [r \<leftarrow> rows. rowid r = k] \<and> k \<in> set (map rowid rows')"
proof -
  from insert_or_replace_result [OF assms(1)] obtain k' uv tv bv where
    n: "names eng v k' \<or> (v = PyNone \<and> k' \<notin> set (map rowid rows))"
    and e: "rows' = [r \<leftarrow> rows. rowid r \<noteq> k'] @ [\<lparr>rowid = k', user_id = uv, title = tv, body = bv\<rparr>]"
    by blast
  from n assms(2,3) have ne: "k' \<noteq> k" by auto
  have "[r \<leftarrow> [r \<leftarrow> rows. rowid r \<noteq> k']. rowid r = k] = [r \<leftarrow> rows. rowid r = k]"
    using ne by (induction rows) auto
  with e ne have "[r \<leftarrow> rows'. rowid r = k] = [r \<leftarrow> rows. rowid r = k]" by simp
  moreover from assms(2) ne e have "k \<in> set (map rowid rows')" by auto
  ultimately show ?thesis by simp
qed

lemma executemany_frame:
  assumes "executemany eng rows ps = Inr rows'"
    and "k \<in> set (map rowid rows)" "\<forall>p \<in> set ps. \<not> names eng (fst p) k"
  shows "[r \<leftarrow> rows'. rowid r = k] = [r \<leftarrow> rows. rowid r = k]"
  using assms
proof (induction ps arbitrary: rows)
  case Nil
  then show ?case by simp
next
  case (Cons p ps)
  obtain v u t b where p: "p = (v, u, t, b)" by (cases p) auto
  from Cons.prems(1) obtain rows1 where
    s: "insert_or_replace eng rows (v, u, t, b) = Inr rows1"
    and rest: "executemany eng rows1 ps = Inr rows'"
    by (auto simp: p split: sum.splits)
  from Cons.prems(3) have nv: "\<not> names eng v k" by (simp add: p)
  from insert_or_replace_frame [OF s Cons.prems(2) nv]
  have f: "[r \<leftarrow> rows1. rowid r = k] = [r \<leftarrow> rows. rowid r = k]"
    and m: "k \<in> set (map rowid rows1)" by simp_all
  from Cons.prems(3) have "\<forall>p \<in> set ps. \<not> names eng (fst p) k" by simp
  from Cons.IH [OF rest m this] f show ?case by simp
qed

lemma parameters_id:
  "parameters p = Inr (v, u, t, b) \<Longrightarrow> subscript p ''id'' = Inr v"
  by (auto simp: parameters_def split: sum.splits)

lemma parameter_list_ids:
  assumes "parameter_list valid = Inr ps" "(v, u, t, b) \<in> set ps"
  shows "\<exists>p \<in> set valid. subscript p ''id'' = Inr v"
  using assms
proof (induction valid arbitrary: ps)
  case Nil
  then show ?case by simp
next
  case (Cons q valid)
  from Cons.prems(1) obtain x xs where
    x: "parameters q = Inr x" and xs: "parameter_list valid = Inr xs" and ps: "ps = x # xs"
    by (auto split: sum.splits)
  show ?case
  proof (cases "(v, u, t, b) = x")
    case True
    with x have "parameters q = Inr (v, u, t, b)" by simp
    then have "subscript q ''id'' = Inr v" by (rule parameters_id)
    then show ?thesis by simp
  next
    case False
    with Cons.prems(2) ps have "(v, u, t, b) \<in> set xs" by simp
    from Cons.IH [OF xs this] show ?thesis by auto
  qed
qed

lemma save_to_db_frame:
  assumes "r \<in> set (posts_table w)"
    and "\<forall>p \<in> set posts. complete p \<longrightarrow> (\<forall>v. subscript p ''id'' = Inr v \<longrightarrow> \<not> names eng v (rowid r))"
  shows "[x \<leftarrow> posts_table (snd (save_to_db eng posts w)). rowid x = rowid r]
         = [x \<leftarrow> posts_table w. rowid x = rowid r]"
proof (cases "select_valid posts")
  case (Inl e)
  then show ?thesis by (simp add: save_to_db_def)
next
  case (Inr valid)
  then have v: "valid = filter complete posts" by (rule select_valid_filter)
  show ?thesis
  proof (cases "parameter_list valid")
    case (Inl e)
    with Inr show ?thesis by (simp add: save_to_db_def)
  next
    case ps: (Inr ps)
    show ?thesis
    proof (cases "executemany eng (posts_table w) ps")
      case (Inl e)
      with Inr ps show ?thesis by (simp add: save_to_db_def)
    next
      case rows': (Inr rows')
      have "\<forall>p \<in> set ps. \<not> names eng (fst p) (rowid r)"
      proof (clarify)
        fix v u t b assume "(v, u, t, b) \<in> set ps" and n: "names eng (fst (v, u, t, b)) (rowid r)"
        from parameter_list_ids [OF ps this(1)] obtain p
          where "p \<in> set valid" "subscript p ''id'' = Inr v" by blast
        with v assms(2) have "\<not> names eng v (rowid r)" by auto
        with n show False by simp
      qed
      moreover from assms(1) have "rowid r \<in> set (map rowid (posts_table w))" by simp
      ultimately have "[x \<leftarrow> rows'. rowid x = rowid r] = [x \<leftarrow> posts_table w. rowid x = rowid r]"
        using executemany_frame [OF rows'] by blast
      with Inr ps rows' show ?thesis by (simp add: save_to_db_def)
    qed
  qed
qed



section \<open>The tabular sink: the rows written\<close>



lemma writerows_fails:
  assumes "dict_to_list p = Inl e0"
  shows "\<exists>e. fst (writerows sheet (before @ p # after)) = Some e
            \<and> length (snd (writerows sheet (before @ p # after))) \<le> length sheet + length before"
proof (induction before arbitrary: sheet)
  case Nil
  show ?case using assms by simp
next
  case (Cons q before)
  show ?case
  proof (cases "dict_to_list q")
    case (Inl e)
    then show ?thesis by simp
  next
    case (Inr cells)
    with Cons [of "sheet @ [cells]"] show ?thesis by auto
  qed
qed

lemma writerows_fails_at:
  assumes "\<forall>q \<in> set before. \<exists>cells. dict_to_list q = Inr cells"
    and "dict_to_list p = Inl e0"
  shows "fst (writerows sheet (before @ p # after)) = Some e0
         \<and> length (snd (writerows sheet (before @ p # after))) = length sheet + length before"
  using assms
proof (induction before arbitrary: sheet)
  case Nil
  then show ?case by simp
next
  case (Cons q before)
  then obtain cells where c: "dict_to_list q = Inr cells" by auto
  from Cons.IH [of "sheet @ [cells]"] Cons.prems
  show ?case by (simp add: c)
qed

lemma writerows_done:
  assumes "fst (writerows sheet posts) = None"
  shows "\<exists>rows. snd (writerows sheet posts) = sheet @ rows \<and> map dict_to_list posts = map Inr rows"
  using assms
proof (induction posts arbitrary: sheet)
  case Nil
  then show ?case by simp
next
  case (Cons p posts)
  show ?case
  proof (cases "dict_to_list p")
    case (Inl e)
    with Cons.prems show ?thesis by simp
  next
    case (Inr cells)
    with Cons.prems have "fst (writerows (sheet @ [cells]) posts) = None" by simp
    from Cons.IH [OF this] obtain rows
      where "snd (writerows (sheet @ [cells]) posts) = (sheet @ [cells]) @ rows"
        and "map dict_to_list posts = map Inr rows" by blast
    with Inr show ?thesis by (intro exI [of _ "cells # rows"]) simp
  qed
qed

lemma save_to_csv_parts:
  "fst (save_to_csv posts w) = fst (writerows [map PyStr fieldnames] posts)
   \<and> posts_csv (snd (save_to_csv posts w)) = Some (snd (writerows [map PyStr fieldnames] posts))
   \<and> posts_table (snd (save_to_csv posts w)) = posts_table w"
  by (cases "writerows [map PyStr fieldnames] posts")
     (auto simp: save_to_csv_def split: option.splits)


section \<open>The pipeline\<close>

lemma fetch_all_posts_some:
  "map_option fst (fetch_all_posts net base_url post_ids) = Some posts
   \<Longrightarrow> \<exists>lg. fetch_all_posts net base_url post_ids = Some (posts, lg)"
  by (cases "fetch_all_posts net base_url post_ids") auto

lemma main_unfold:
  assumes "fetch_all_posts net base_url post_ids = Some (posts, lg)"
  shows "main eng net base_url post_ids w =
     (if posts \<noteq> [] then
        (case save_to_db eng posts (w\<lparr>logs := logs w @ lg\<rparr>) of
           (Some e, w2) \<Rightarrow> Some (Some e, w2)
         | (None, w2) \<Rightarrow> Some (save_to_csv posts w2))
      else Some (None, w\<lparr>logs := logs w @ lg\<rparr>))"
  using assms by (simp add: main_def Let_def)

section \<open>The sinks and the runs\<close>







text \<open>
  Claim C4, as the program has it. After a run with at least one success that ends without
  an exception, the export holds the header and one row per success. After a run without
  a success no exception is raised and the export and the table are what they were before
  the run: neither sink is called.
\<close>

theorem export_rows_match_successes:
  assumes "map_option fst (fetch_all_posts net base_url post_ids) = Some posts"
  shows "(posts \<noteq> [] \<and> raised (main eng net base_url post_ids w) = None \<longrightarrow>
            (\<exists>sheet. export_after (main eng net base_url post_ids w) = Some sheet
               \<and> length sheet = Suc (length posts)))
       \<and> (posts = [] \<longrightarrow>
            export_after (main eng net base_url post_ids w) = posts_csv w
            \<and> table_after (main eng net base_url post_ids w) = posts_table w
            \<and> raised (main eng net base_url post_ids w) = None)
       \<and> main eng net base_url post_ids w \<noteq> None"
proof -
  from fetch_all_posts_some [OF assms] obtain lg
    where f: "fetch_all_posts net base_url post_ids = Some (posts, lg)" by blast
  note m = main_unfold [OF f, of eng w]
  let ?w1 = "w\<lparr>logs := logs w @ lg\<rparr>"
  obtain e2 w2 where db: "save_to_db eng posts ?w1 = (e2, w2)"
    by (cases "save_to_db eng posts ?w1")
  have a: "posts \<noteq> [] \<and> raised (main eng net base_url post_ids w) = None \<longrightarrow>
            (\<exists>sheet. export_after (main eng net base_url post_ids w) = Some sheet
               \<and> length sheet = Suc (length posts))"
  proof (intro impI, elim conjE)
    assume ne: "posts \<noteq> []" and ok: "raised (main eng net base_url post_ids w) = None"
    show "\<exists>sheet. export_after (main eng net base_url post_ids w) = Some sheet
               \<and> length sheet = Suc (length posts)"
    proof (cases e2)
      case (Some e)
      with m ne db ok show ?thesis by (simp add: raised_def)
    next
      case None
      with m ne db have r: "main eng net base_url post_ids w = Some (save_to_csv posts w2)"
        by simp
      with ok have "fst (save_to_csv posts w2) = None"
        by (simp add: raised_def split_def)
      then have "fst (writerows [map PyStr fieldnames] posts) = None"
        by (simp add: save_to_csv_parts)
      from writerows_done [OF this] obtain rows where
        "snd (writerows [map PyStr fieldnames] posts) = [map PyStr fieldnames] @ rows"
        "map dict_to_list posts = map Inr rows" by blast
      moreover from this(2) have "length rows = length posts"
        by (metis length_map)
      ultimately show ?thesis
        using r by (simp add: export_after_def split_def save_to_csv_parts)
    qed
  qed
  have b: "posts = [] \<longrightarrow>
            export_after (main eng net base_url post_ids w) = posts_csv w
            \<and> table_after (main eng net base_url post_ids w) = posts_table w
            \<and> raised (main eng net base_url post_ids w) = None"
    using m by (simp add: export_after_def table_after_def raised_def)
  have c: "main eng net base_url post_ids w \<noteq> None"
    using m db by (auto split: option.splits)
  from a b c show ?thesis by blast
qed

theorem export_rows_match_successes_witness:
  "map_option fst (fetch_all_posts scenario_A ''posts/'' [IdInt 1, IdInt 2]) = Some [post 1]
   \<and> raised (main plain_engine scenario_A ''posts/'' [IdInt 1, IdInt 2] fresh_world) = None
   \<and> map_option length (export_after (main plain_engine scenario_A ''posts/'' [IdInt 1, IdInt 2] fresh_world))
       = Some (Suc (length [post 1]))
   \<and> export_after (main plain_engine scenario_B ''posts/'' [IdInt 5] fresh_world) = None"
proof -
  have h: "map_option fst (fetch_all_posts scenario_A ''posts/'' [IdInt 1, IdInt 2]) = Some [post 1]"
    by code_simp
  have ne: "[post 1] \<noteq> []" by simp
  have ok: "raised (main plain_engine scenario_A ''posts/'' [IdInt 1, IdInt 2] fresh_world) = None"
    by code_simp
  from export_rows_match_successes [OF h, of plain_engine fresh_world] ne ok
  obtain sheet where
    "export_after (main plain_engine scenario_A ''posts/'' [IdInt 1, IdInt 2] fresh_world) = Some sheet"
    "length sheet = Suc (length [post 1])"
    by blast
  then have a: "map_option length (export_after (main plain_engine scenario_A ''posts/'' [IdInt 1, IdInt 2] fresh_world))
       = Some (Suc (length [post 1]))"
    by simp
  have h': "map_option fst (fetch_all_posts scenario_B ''posts/'' [IdInt 5]) = Some []"
    by code_simp
  from export_rows_match_successes [OF h', of plain_engine fresh_world]
  have "export_after (main plain_engine scenario_B ''posts/'' [IdInt 5] fresh_world) = posts_csv fresh_world"
    by blast
  then have b: "export_after (main plain_engine scenario_B ''posts/'' [IdInt 5] fresh_world) = None"
    by (simp add: fresh_world_def)
  from h ok a b show ?thesis by blast
qed

text \<open>
  Scenario B run after scenario A: the success count of the run is zero and the export
  still holds the row of the earlier run.
\<close>

theorem export_rows_outlive_empty_run:
  "main plain_engine scenario_A ''posts/'' [IdInt 1, IdInt 2] fresh_world = Some (None, after_scenario_A)
   \<and> map_option fst (fetch_all_posts scenario_B ''posts/'' [IdInt 5]) = Some []
   \<and> export_after (main plain_engine scenario_B ''posts/'' [IdInt 5] after_scenario_A)
       = Some [[PyStr ''id'', PyStr ''userId'', PyStr ''title'', PyStr ''body''],
               [PyInt 1, PyInt 1, PyStr ''t'', PyStr ''b'']]"
  by code_simp

text \<open>
  Claim C6, as the program has it. \<open>save_to_csv\<close> never appends: the file it leaves does not
  depend on the file it found. Of two runs in sequence, a second run with at least one
  success that ends without an exception leaves exactly the four-column header followed
  by the rows of its own successes, in their order; a second run without a success
  leaves the export of the first run in place.
\<close>

theorem export_replaced_by_completed_run:
  assumes "main eng net1 base1 ids1 w0 = Some (e1, w1)"
    and "map_option fst (fetch_all_posts net2 base2 ids2) = Some posts2"
  shows "(posts2 \<noteq> [] \<and> raised (main eng net2 base2 ids2 w1) = None \<longrightarrow>
            (\<exists>rows. export_after (main eng net2 base2 ids2 w1)
                       = Some (map PyStr [''id'', ''userId'', ''title'', ''body''] # rows)
               \<and> map dict_to_list posts2 = map Inr rows))
       \<and> (posts2 = [] \<longrightarrow> export_after (main eng net2 base2 ids2 w1) = posts_csv w1)
       \<and> posts_csv (snd (save_to_csv posts w)) = posts_csv (snd (save_to_csv posts w'))"
proof -
  from fetch_all_posts_some [OF assms(2)] obtain lg
    where f: "fetch_all_posts net2 base2 ids2 = Some (posts2, lg)" by blast
  note m = main_unfold [OF f, of eng w1]
  let ?w1 = "w1\<lparr>logs := logs w1 @ lg\<rparr>"
  obtain e2 w2 where db: "save_to_db eng posts2 ?w1 = (e2, w2)"
    by (cases "save_to_db eng posts2 ?w1")
  have a: "posts2 \<noteq> [] \<and> raised (main eng net2 base2 ids2 w1) = None \<longrightarrow>
            (\<exists>rows. export_after (main eng net2 base2 ids2 w1)
                       = Some (map PyStr [''id'', ''userId'', ''title'', ''body''] # rows)
               \<and> map dict_to_list posts2 = map Inr rows)"
  proof (intro impI, elim conjE)
    assume ne: "posts2 \<noteq> []" and ok: "raised (main eng net2 base2 ids2 w1) = None"
    show "\<exists>rows. export_after (main eng net2 base2 ids2 w1)
                       = Some (map PyStr [''id'', ''userId'', ''title'', ''body''] # rows)
               \<and> map dict_to_list posts2 = map Inr rows"
    proof (cases e2)
      case (Some e)
      with m ne db ok show ?thesis by (simp add: raised_def)
    next
      case None
      with m ne db have r: "main eng net2 base2 ids2 w1 = Some (save_to_csv posts2 w2)"
        by simp
      with ok have "fst (save_to_csv posts2 w2) = None"
        by (simp add: raised_def split_def)
      then have "fst (writerows [map PyStr fieldnames] posts2) = None"
        by (simp add: save_to_csv_parts)
      from writerows_done [OF this] obtain rows where
        "snd (writerows [map PyStr fieldnames] posts2) = [map PyStr fieldnames] @ rows"
        "map dict_to_list posts2 = map Inr rows" by blast
      then show ?thesis
        using r by (simp add: export_after_def split_def save_to_csv_parts fieldnames_def)
    qed
  qed
  have b: "posts2 = [] \<longrightarrow> export_after (main eng net2 base2 ids2 w1) = posts_csv w1"
    using m by (simp add: export_after_def)
  have c: "posts_csv (snd (save_to_csv posts w)) = posts_csv (snd (save_to_csv posts w'))"
    by (simp add: save_to_csv_parts)
  from a b c show ?thesis by blast
qed

theorem export_replaced_by_completed_run_witness:
  "main plain_engine scenario_A ''posts/'' [IdInt 1, IdInt 2] fresh_world = Some (None, after_scenario_A)
   \<and> map_option fst (fetch_all_posts (always (post 3)) ''posts/'' [IdInt 3]) = Some [post 3]
   \<and> raised (main plain_engine (always (post 3)) ''posts/'' [IdInt 3] after_scenario_A) = None
   \<and> export_after (main plain_engine (always (post 3)) ''posts/'' [IdInt 3] after_scenario_A)
       = Some [[PyStr ''id'', PyStr ''userId'', PyStr ''title'', PyStr ''body''],
               [PyInt 3, PyInt 1, PyStr ''t'', PyStr ''b'']]"
proof -
  have h1: "main plain_engine scenario_A ''posts/'' [IdInt 1, IdInt 2] fresh_world
      = Some (None, after_scenario_A)"
    by code_simp
  have h2: "map_option fst (fetch_all_posts (always (post 3)) ''posts/'' [IdInt 3]) = Some [post 3]"
    by code_simp
  have ne: "[post 3] \<noteq> []" by simp
  have ok: "raised (main plain_engine (always (post 3)) ''posts/'' [IdInt 3] after_scenario_A) = None"
    by code_simp
  from export_replaced_by_completed_run [OF h1 h2] ne ok obtain rows where
    x: "export_after (main plain_engine (always (post 3)) ''posts/'' [IdInt 3] after_scenario_A)
          = Some (map PyStr [''id'', ''userId'', ''title'', ''body''] # rows)"
    and r: "map dict_to_list [post 3] = map Inr rows"
    by blast
  have "map dict_to_list [post 3] = map Inr [[PyInt 3, PyInt 1, PyStr ''t'', PyStr ''b'']]"
    by code_simp
  with r have "map Inr rows = (map Inr [[PyInt 3, PyInt 1, PyStr ''t'', PyStr ''b'']]
      :: (error + pyval list) list)"
    by simp
  then have "rows = [[PyInt 3, PyInt 1, PyStr ''t'', PyStr ''b'']]"
    by (auto simp: map_eq_Cons_conv)
  with x have a: "export_after (main plain_engine (always (post 3)) ''posts/'' [IdInt 3] after_scenario_A)
       = Some [[PyStr ''id'', PyStr ''userId'', PyStr ''title'', PyStr ''body''],
               [PyInt 3, PyInt 1, PyStr ''t'', PyStr ''b'']]"
    by simp
  from h1 h2 ok a show ?thesis by blast
qed

text \<open>
  After scenario A, three second runs whose successes are disjoint from the first run's:
  one without a success leaves the first run's row in the export; one whose payload has
  an unknown field leaves the header alone; one whose payload the table cannot store
  leaves the first run's row.
\<close>

theorem export_not_replaced_by_second_run:
  "main plain_engine scenario_A ''posts/'' [IdInt 1, IdInt 2] fresh_world = Some (None, after_scenario_A)
   \<and> map_option fst (fetch_all_posts all_missing ''posts/'' [IdInt 3]) = Some []
   \<and> export_after (main plain_engine all_missing ''posts/'' [IdInt 3] after_scenario_A)
       = Some [[PyStr ''id'', PyStr ''userId'', PyStr ''title'', PyStr ''body''],
               [PyInt 1, PyInt 1, PyStr ''t'', PyStr ''b'']]
   \<and> map_option fst (fetch_all_posts (always annotated) ''posts/'' [IdInt 2]) = Some [annotated]
   \<and> export_after (main plain_engine (always annotated) ''posts/'' [IdInt 2] after_scenario_A)
       = Some [[PyStr ''id'', PyStr ''userId'', PyStr ''title'', PyStr ''body'']]
   \<and> map_option fst (fetch_all_posts (always unbindable) ''posts/'' [IdInt 4]) = Some [unbindable]
   \<and> export_after (main plain_engine (always unbindable) ''posts/'' [IdInt 4] after_scenario_A)
       = Some [[PyStr ''id'', PyStr ''userId'', PyStr ''title'', PyStr ''body''],
               [PyInt 1, PyInt 1, PyStr ''t'', PyStr ''b'']]"
  by code_simp

text \<open>
  Claim C7. When the batch write fails in the storage layer, \<open>save_to_db\<close> ends with that
  very error, commits nothing and logs nothing, and \<open>main\<close> ends with it too without
  calling \<open>save_to_csv\<close>: the state after the run is the state after the fetches.
\<close>

theorem storage_error_propagates:
  assumes "select_valid posts = Inr valid" "parameter_list valid = Inr ps"
    and "executemany eng (posts_table w) ps = Inl e"
  shows "save_to_db eng posts w = (Some e, w)
       \<and> (fetch_all_posts net base_url post_ids = Some (posts, lg) \<and> posts \<noteq> [] \<longrightarrow>
            main eng net base_url post_ids w = Some (Some e, w\<lparr>logs := logs w @ lg\<rparr>))"
proof -
  have a: "save_to_db eng posts w = (Some e, w)"
    using assms by (simp add: save_to_db_def)
  have "save_to_db eng posts (w\<lparr>logs := logs w @ lg\<rparr>) = (Some e, w\<lparr>logs := logs w @ lg\<rparr>)"
    using assms by (simp add: save_to_db_def)
  then have b: "fetch_all_posts net base_url post_ids = Some (posts, lg) \<and> posts \<noteq> [] \<longrightarrow>
      main eng net base_url post_ids w = Some (Some e, w\<lparr>logs := logs w @ lg\<rparr>)"
    by (auto simp: main_unfold)
  from a b show ?thesis by blast
qed

theorem storage_error_propagates_witness:
  "save_to_db plain_engine [unbindable] fresh_world = (Some SqliteBindError, fresh_world)
   \<and> main plain_engine (always unbindable) ''posts/'' [IdInt 4] fresh_world
       = Some (Some SqliteBindError,
               fresh_world\<lparr>logs := logs fresh_world
                  @ [(INFO, ''Fetched count: 1 | Successfully: 1 | Failed: 0'')]\<rparr>)
   \<and> export_after (main plain_engine (always unbindable) ''posts/'' [IdInt 4] fresh_world) = None"
proof -
  let ?ps = "[(PyInt 4, PyInt 1, PyList [PyStr ''a''], PyStr ''b'')]"
  let ?lg = "[(INFO, ''Fetched count: 1 | Successfully: 1 | Failed: 0'')]"
  have h1: "select_valid [unbindable] = Inr [unbindable]"
    by code_simp
  have h2: "parameter_list [unbindable] = Inr ?ps"
    by code_simp
  have h3: "executemany plain_engine (posts_table fresh_world) ?ps = Inl SqliteBindError"
    by code_simp
  have f: "fetch_all_posts (always unbindable) ''posts/'' [IdInt 4] = Some ([unbindable], ?lg)"
    by code_simp
  have ne: "[unbindable] \<noteq> []" by simp
  note t = storage_error_propagates [OF h1 h2 h3, of "always unbindable" "''posts/''" "[IdInt 4]" ?lg]
  from t have a: "save_to_db plain_engine [unbindable] fresh_world = (Some SqliteBindError, fresh_world)"
    by blast
  from t f ne have b: "main plain_engine (always unbindable) ''posts/'' [IdInt 4] fresh_world
       = Some (Some SqliteBindError, fresh_world\<lparr>logs := logs fresh_world @ ?lg\<rparr>)"
    by blast
  from b have c: "export_after (main plain_engine (always unbindable) ''posts/'' [IdInt 4] fresh_world) = None"
    by (simp add: export_after_def fresh_world_def)
  from a b c show ?thesis by blast
qed

text \<open>
  Claim C9. When a fetched payload is a dictionary with a key outside the four export
  columns and the relational write of the batch has succeeded, \<open>main\<close> ends with the
  exception that \<open>save_to_csv\<close> raises; the export stops before the row of that payload,
  and the table keeps what the relational write committed.
\<close>

theorem extra_field_aborts_export:
  assumes "k \<in> fst ` set kvs" "k \<notin> set fieldnames"
    and "fetch_all_posts net base_url post_ids = Some (before @ PyDict kvs # after, lg)"
    and "save_to_db eng (before @ PyDict kvs # after) (w\<lparr>logs := logs w @ lg\<rparr>) = (None, w2)"
  shows "\<exists>e sheet. main eng net base_url post_ids w = Some (Some e, w2\<lparr>posts_csv := Some sheet\<rparr>)
           \<and> length sheet \<le> Suc (length before)
           \<and> fst (save_to_csv (before @ PyDict kvs # after) w2) = Some e
           \<and> ((\<forall>q \<in> set before. \<exists>cells. dict_to_list q = Inr cells)
                \<longrightarrow> e = ValueError \<and> length sheet = Suc (length before))"
proof -
  let ?posts = "before @ PyDict kvs # after"
  from assms(1,2) have "[k \<leftarrow> map fst kvs. k \<notin> set fieldnames] \<noteq> []"
    by (auto simp: filter_empty_conv)
  then have bad: "dict_to_list (PyDict kvs) = Inl ValueError" by (simp add: Let_def)
  from writerows_fails [OF bad, of "[map PyStr fieldnames]" before after] obtain e where
    e: "fst (writerows [map PyStr fieldnames] ?posts) = Some e"
    and l: "length (snd (writerows [map PyStr fieldnames] ?posts)) \<le> Suc (length before)"
    by auto
  obtain sheet where s: "writerows [map PyStr fieldnames] ?posts = (Some e, sheet)"
    using e by (cases "writerows [map PyStr fieldnames] ?posts") auto
  then have csv: "save_to_csv ?posts w2 = (Some e, w2\<lparr>posts_csv := Some sheet\<rparr>)"
    by (simp add: save_to_csv_def)
  have m: "main eng net base_url post_ids w = Some (save_to_csv ?posts w2)"
    using assms(4) by (simp add: main_unfold [OF assms(3)])
  have x: "(\<forall>q \<in> set before. \<exists>cells. dict_to_list q = Inr cells)
                \<longrightarrow> e = ValueError \<and> length sheet = Suc (length before)"
  proof
    assume "\<forall>q \<in> set before. \<exists>cells. dict_to_list q = Inr cells"
    from writerows_fails_at [OF this bad, of "[map PyStr fieldnames]" after] s
    show "e = ValueError \<and> length sheet = Suc (length before)" by simp
  qed
  from m csv l s x show ?thesis
    by (intro exI [of _ e] exI [of _ sheet]) simp
qed

theorem extra_field_aborts_export_witness:
  "raised (main plain_engine (always annotated) ''posts/'' [IdInt 2] fresh_world) = Some ValueError
   \<and> table_after (main plain_engine (always annotated) ''posts/'' [IdInt 2] fresh_world)
       = [\<lparr>rowid = 2, user_id = SInt 1, title = SText ''t'', body = SText ''b''\<rparr>]
   \<and> export_after (main plain_engine (always annotated) ''posts/'' [IdInt 2] fresh_world)
       = Some [[PyStr ''id'', PyStr ''userId'', PyStr ''title'', PyStr ''body'']]"
proof -
  let ?kvs = "[(''id'', PyInt 2), (''userId'', PyInt 1), (''title'', PyStr ''t''),
               (''body'', PyStr ''b''), (''note'', PyStr ''n'')]"
  let ?lg = "[(INFO, ''Fetched count: 1 | Successfully: 1 | Failed: 0'')]"
  let ?w2 = "\<lparr>posts_table = [\<lparr>rowid = 2, user_id = SInt 1, title = SText ''t'', body = SText ''b''\<rparr>],
              posts_csv = None,
              logs = [(INFO, ''Fetched count: 1 | Successfully: 1 | Failed: 0''),
                      (INFO, ''Data saved to database'')]\<rparr>"
  have h1: "''note'' \<in> fst ` set ?kvs" by simp
  have h2: "''note'' \<notin> set fieldnames" by (simp add: fieldnames_def)
  have h3: "fetch_all_posts (always annotated) ''posts/'' [IdInt 2] = Some ([] @ PyDict ?kvs # [], ?lg)"
    by code_simp
  have h4: "save_to_db plain_engine ([] @ PyDict ?kvs # []) (fresh_world\<lparr>logs := logs fresh_world @ ?lg\<rparr>)
      = (None, ?w2)"
    by code_simp
  from extra_field_aborts_export [OF h1 h2 h3 h4] obtain e sheet where
    m: "main plain_engine (always annotated) ''posts/'' [IdInt 2] fresh_world
          = Some (Some e, ?w2\<lparr>posts_csv := Some sheet\<rparr>)"
    and l: "length sheet \<le> Suc (length ([]::pyval list))"
    and c: "fst (save_to_csv ([] @ PyDict ?kvs # []) ?w2) = Some e"
    by blast
  have "fst (save_to_csv ([] @ PyDict ?kvs # []) ?w2) = Some ValueError"
    by code_simp
  with c have e: "e = ValueError" by simp
  have x: "export_after (main plain_engine (always annotated) ''posts/'' [IdInt 2] fresh_world)
       = Some [[PyStr ''id'', PyStr ''userId'', PyStr ''title'', PyStr ''body'']]"
    by code_simp
  from m e x show ?thesis by (simp add: raised_def table_after_def)
qed

text \<open>
  Claim C10. A row that was in the table before \<open>save_to_db\<close>, and whose rowid no accepted
  payload of the batch names with its \<open>id\<close>, is still there afterwards, unchanged and alone
  under its rowid, whether the call succeeds or raises.
\<close>

theorem untouched_rows_unchanged:
  assumes "r \<in> set (posts_table w)"
    and "\<forall>p \<in> set posts. complete p \<longrightarrow>
           (\<forall>v. subscript p ''id'' = Inr v \<longrightarrow> \<not> names eng v (rowid r))"
  shows "[x \<leftarrow> posts_table (snd (save_to_db eng posts w)). rowid x = rowid r]
         = [x \<leftarrow> posts_table w. rowid x = rowid r]
       \<and> r \<in> set (posts_table (snd (save_to_db eng posts w)))"
proof -
  have f: "[x \<leftarrow> posts_table (snd (save_to_db eng posts w)). rowid x = rowid r]
         = [x \<leftarrow> posts_table w. rowid x = rowid r]"
    using assms by (rule save_to_db_frame)
  from assms(1) have "r \<in> set [x \<leftarrow> posts_table w. rowid x = rowid r]" by simp
  with f have "r \<in> set [x \<leftarrow> posts_table (snd (save_to_db eng posts w)). rowid x = rowid r]"
    by simp
  then have "r \<in> set (posts_table (snd (save_to_db eng posts w)))" by simp
  with f show ?thesis by blast
qed

theorem untouched_rows_unchanged_witness:
  "[x \<leftarrow> posts_table (snd (save_to_db plain_engine [post 2, untitled] after_scenario_A)). rowid x = 1]
     = [\<lparr>rowid = 1, user_id = SInt 1, title = SText ''t'', body = SText ''b''\<rparr>]
   \<and> posts_table (snd (save_to_db plain_engine [post 2, untitled] after_scenario_A))
     = [\<lparr>rowid = 1, user_id = SInt 1, title = SText ''t'', body = SText ''b''\<rparr>,
        \<lparr>rowid = 2, user_id = SInt 1, title = SText ''t'', body = SText ''b''\<rparr>]"
proof -
  let ?r = "\<lparr>rowid = 1, user_id = SInt 1, title = SText ''t'', body = SText ''b''\<rparr>"
  have h1: "?r \<in> set (posts_table after_scenario_A)"
    by (simp add: after_scenario_A_def)
  have h2: "\<forall>p \<in> set [post 2, untitled]. complete p \<longrightarrow>
      (\<forall>v. subscript p ''id'' = Inr v \<longrightarrow> \<not> names plain_engine v (rowid ?r))"
    by (simp add: post_def untitled_def names_def max_rowid_def complete_def required_def)
  from untouched_rows_unchanged [OF h1 h2]
  have "[x \<leftarrow> posts_table (snd (save_to_db plain_engine [post 2, untitled] after_scenario_A)).
          rowid x = rowid ?r]
        = [x \<leftarrow> posts_table after_scenario_A. rowid x = rowid ?r]"
    by blast
  moreover have "[x \<leftarrow> posts_table after_scenario_A. rowid x = rowid ?r] = [?r]"
    by (simp add: after_scenario_A_def)
  ultimately have a: "[x \<leftarrow> posts_table (snd (save_to_db plain_engine [post 2, untitled] after_scenario_A)).
          rowid x = 1] = [?r]"
    by simp
  have b: "posts_table (snd (save_to_db plain_engine [post 2, untitled] after_scenario_A))
     = [?r, \<lparr>rowid = 2, user_id = SInt 1, title = SText ''t'', body = SText ''b''\<rparr>]"
    by code_simp
  from a b show ?thesis by blast
qed

end
